theory Spec2Isabelle
  imports Complex_Main "HOL-Library.Sublist" "HOL-Library.Log_Nat"
begin

section \<open>Personal finance chatbot: a model of \<^verbatim>\<open>src/main.py\<close>\<close>

text \<open>
  Python strings are modelled as \<^typ>\<open>string\<close>. The source writes every line break inside
  its string literals as \<^verbatim>\<open>\\n\<close>, which in a Python literal is the two characters
  backslash and \<^verbatim>\<open>n\<close>, not the line-feed character; \<open>bsn\<close> is that two-character
  string.
\<close>

definition bsn :: string where
  "bsn = [CHR 0x5C, CHR ''n'']"

subsection \<open>Prompt engineering helpers\<close>

text \<open>\<^verbatim>\<open>build_prompt(user_question, persona)\<close>, lines 88 to 96.\<close>

definition student_tone :: string where
  "student_tone =
     ''Clear, friendly, simple. Define financial terms in plain English and give short examples.''"

definition student_depth :: string where
  "student_depth =
     ''Provide practical steps a student can follow and a short sample monthly budget table.''"

definition professional_tone :: string where
  "professional_tone =
     ''Concise, professional, data-forward. Use precise terminology and include numeric examples where helpful.''"

definition professional_depth :: string where
  "professional_depth =
     ''Provide trade-offs and a recommended allocation by percentage if relevant.''"

definition tone_of :: "string \<Rightarrow> string" where
  "tone_of persona = (if persona = ''student'' then student_tone else professional_tone)"

definition depth_of :: "string \<Rightarrow> string" where
  "depth_of persona = (if persona = ''student'' then student_depth else professional_depth)"

definition build_prompt :: "string \<Rightarrow> string \<Rightarrow> string" where
  "build_prompt user_question persona =
     ''You are a helpful personal finance assistant. '' @ tone_of persona @ '' '' @
     depth_of persona @ bsn @ bsn @ ''User question: '' @ user_question @ bsn @ bsn @
     ''Output:''"

subsection \<open>Python values, exceptions and the network\<close>

text \<open>
  What \<^verbatim>\<open>resp.json()\<close> returns: \<^verbatim>\<open>None\<close>, a bool, an int, a float, a str, a list
  or a dict. A dict is the list of its items, keys distinct, in insertion order. The clients
  return such a value too: a str on most paths, but whatever value the response holds
  under \<^verbatim>\<open>generated_text\<close> on the extraction paths.
\<close>

datatype json =
    JNull
  | JBool bool
  | JInt int
  | JFloat rat
  | JStr string
  | JArr "json list"
  | JObj "(string \<times> json) list"

text \<open>
  The exceptions of class \<^verbatim>\<open>Exception\<close> that the two clients can meet: the ones raised by
  \<^verbatim>\<open>requests\<close> (connection failure, timeout, and so on, told apart by an opaque
  description), by \<^verbatim>\<open>raise_for_status\<close>, by \<^verbatim>\<open>resp.json()\<close>, and by the interpreter when
  an operation meets a value of the wrong type.
\<close>

datatype exc =
    RequestException string
  | HTTPError nat
  | JSONDecodeError string
  | AttributeError json string
  | KeyError string
  | TypeError_not_container json
  | TypeError_not_subscriptable json
  | TypeError_not_iterable json
  | TypeError_join_item nat json

datatype http_method = POST | DELETE

record request =
  meth :: http_method
  url :: string
  auth :: "(string \<times> string) option"
  headers :: "(string \<times> string) list"
  payload :: "json option"
  timeout :: nat

record response =
  status_code :: nat
  json_result :: "exc + json"

text \<open>
  The network is a parameter: given the requests made so far and the next request, it
  raises or answers. Every call is appended to the list of requests made, so that
  the list a client returns is the sequence of its network calls.
\<close>

type_synonym network = "request list \<Rightarrow> request \<Rightarrow> exc + response"

definition http_call :: "network \<Rightarrow> request list \<Rightarrow> request \<Rightarrow> (exc + response) \<times> request list" where
  "http_call net calls req = (net calls req, calls @ [req])"

definition raise_for_status :: "response \<Rightarrow> exc + unit" where
  "raise_for_status r =
     (if 400 \<le> status_code r \<and> status_code r < 600 then Inl (HTTPError (status_code r))
      else Inr ())"

text \<open>
  Library functions whose text output is not part of this program are parameters:
  \<^verbatim>\<open>str(e)\<close> of an exception, \<^verbatim>\<open>json.dumps\<close>, and \<^verbatim>\<open>str\<close> of a value that is not a
  string (used when a value is formatted into an f-string).
\<close>

record pylib =
  str_exc :: "exc \<Rightarrow> string"
  dumps :: "json \<Rightarrow> string"
  str_value :: "json \<Rightarrow> string"

definition format_value :: "pylib \<Rightarrow> json \<Rightarrow> string" where
  "format_value lib v = (case v of JStr s \<Rightarrow> s | _ \<Rightarrow> str_value lib v)"

text \<open>The module-level configuration read from the environment, lines 23 to 27.\<close>

record config =
  HUGGINGFACE_API_TOKEN :: "string option"
  GRANITE_MODEL :: string
  WATSON_APIKEY :: "string option"
  WATSON_URL :: "string option"
  WATSON_ASSISTANT_ID :: "string option"

text \<open>Truth value of an optional string: \<^verbatim>\<open>None\<close> and the empty string are false.\<close>

definition truthy :: "string option \<Rightarrow> bool" where
  "truthy s = (case s of None \<Rightarrow> False | Some t \<Rightarrow> t \<noteq> [])"

text \<open>\<^verbatim>\<open>key in v\<close>, \<^verbatim>\<open>v[key]\<close>, \<^verbatim>\<open>v.get(key, default)\<close> and iteration over \<open>v\<close>.\<close>

definition py_contains :: "string \<Rightarrow> json \<Rightarrow> exc + bool" where
  "py_contains key v =
     (case v of
        JObj kvs \<Rightarrow> Inr (key \<in> set (map fst kvs))
      | JArr xs \<Rightarrow> Inr (JStr key \<in> set xs)
      | JStr s \<Rightarrow> Inr (sublist key s)
      | _ \<Rightarrow> Inl (TypeError_not_container v))"

definition py_getitem :: "json \<Rightarrow> string \<Rightarrow> exc + json" where
  "py_getitem v key =
     (case v of
        JObj kvs \<Rightarrow> (case map_of kvs key of None \<Rightarrow> Inl (KeyError key) | Some x \<Rightarrow> Inr x)
      | _ \<Rightarrow> Inl (TypeError_not_subscriptable v))"

definition py_get :: "json \<Rightarrow> string \<Rightarrow> json \<Rightarrow> exc + json" where
  "py_get v key dflt =
     (case v of
        JObj kvs \<Rightarrow> Inr (case map_of kvs key of None \<Rightarrow> dflt | Some x \<Rightarrow> x)
      | _ \<Rightarrow> Inl (AttributeError v ''get''))"

definition py_iter :: "json \<Rightarrow> exc + json list" where
  "py_iter v =
     (case v of
        JArr xs \<Rightarrow> Inr xs
      | JObj kvs \<Rightarrow> Inr (map (\<lambda>kv. JStr (fst kv)) kvs)
      | JStr s \<Rightarrow> Inr (map (\<lambda>c. JStr [c]) s)
      | _ \<Rightarrow> Inl (TypeError_not_iterable v))"

text \<open>
  \<^verbatim>\<open>sep.join(items)\<close>: every item must be a str; the first one that is not raises
  \<^verbatim>\<open>TypeError\<close>, which names its position.
\<close>

fun py_join_from :: "string \<Rightarrow> nat \<Rightarrow> json list \<Rightarrow> exc + string" where
  "py_join_from sep i [] = Inr []"
| "py_join_from sep i (x # xs) =
     (case x of
        JStr s \<Rightarrow>
          (case py_join_from sep (Suc i) xs of
             Inl e \<Rightarrow> Inl e
           | Inr rest \<Rightarrow> Inr (if xs = [] then s else s @ sep @ rest))
      | _ \<Rightarrow> Inl (TypeError_join_item i x))"

definition py_join :: "string \<Rightarrow> json list \<Rightarrow> exc + string" where
  "py_join sep items = py_join_from sep 0 items"

subsection \<open>Hugging Face Inference API call\<close>

text \<open>\<^verbatim>\<open>call_hf_inference(prompt, model, max_tokens, temperature)\<close>, lines 30 to 53.\<close>

definition hf_request :: "string \<Rightarrow> string \<Rightarrow> string \<Rightarrow> int \<Rightarrow> rat \<Rightarrow> request" where
  "hf_request token prompt model max_tokens temperature =
     \<lparr> meth = POST,
       url = ''https://api-inference.huggingface.co/models/'' @ model,
       auth = None,
       headers = [(''Authorization'', ''Bearer '' @ token),
                  (''Content-Type'', ''application/json'')],
       payload = Some (JObj
         [(''inputs'', JStr prompt),
          (''parameters'', JObj [(''max_new_tokens'', JInt max_tokens),
                                 (''temperature'', JFloat temperature)]),
          (''options'', JObj [(''use_cache'', JBool False)])]),
       timeout = 60 \<rparr>"

text \<open>Lines 46 to 51: the two accepted shapes, then the fallback.\<close>

definition hf_extract :: "pylib \<Rightarrow> json \<Rightarrow> exc + json" where
  "hf_extract lib data =
     (case (case data of
              JArr (d0 # ds) \<Rightarrow>
                (case py_contains ''generated_text'' d0 of
                   Inl e \<Rightarrow> Inl e
                 | Inr True \<Rightarrow> Inr (Some d0)
                 | Inr False \<Rightarrow> Inr None)
            | _ \<Rightarrow> Inr None) of
        Inl e \<Rightarrow> Inl e
      | Inr (Some d0) \<Rightarrow> py_getitem d0 ''generated_text''
      | Inr None \<Rightarrow>
          (case data of
             JObj kvs \<Rightarrow>
               (if ''generated_text'' \<in> set (map fst kvs) then py_getitem data ''generated_text''
                else Inr (JStr (dumps lib data)))
           | _ \<Rightarrow> Inr (JStr (dumps lib data))))"

text \<open>Lines 42 to 51: the body of the \<^verbatim>\<open>try\<close>, with the log of requests made.\<close>

definition hf_try :: "pylib \<Rightarrow> network \<Rightarrow> request \<Rightarrow> (exc + json) \<times> request list" where
  "hf_try lib net req =
     (case http_call net [] req of
        (Inl e, calls) \<Rightarrow> (Inl e, calls)
      | (Inr resp, calls) \<Rightarrow>
          (case raise_for_status resp of
             Inl e \<Rightarrow> (Inl e, calls)
           | Inr u \<Rightarrow>
               (case json_result resp of
                  Inl e \<Rightarrow> (Inl e, calls)
                | Inr data \<Rightarrow> (hf_extract lib data, calls))))"

text \<open>Line 31, \<^verbatim>\<open>model or GRANITE_MODEL\<close>, and line 53, the text made from an exception.\<close>

definition hf_model :: "config \<Rightarrow> string option \<Rightarrow> string" where
  "hf_model cfg model = (if truthy model then the model else GRANITE_MODEL cfg)"

definition hf_exception_text :: "pylib \<Rightarrow> exc \<Rightarrow> string" where
  "hf_exception_text lib e = ''Exception calling Hugging Face Inference API: '' @ str_exc lib e"

definition call_hf_inference ::
  "config \<Rightarrow> pylib \<Rightarrow> network \<Rightarrow> string \<Rightarrow> string option \<Rightarrow> int \<Rightarrow> rat \<Rightarrow> json \<times> request list" where
  "call_hf_inference cfg lib net prompt model max_tokens temperature =
     (if \<not> truthy (HUGGINGFACE_API_TOKEN cfg) then
        (JStr ''ERROR: HUGGINGFACE API token not set.'', [])
      else
        (case hf_try lib net
                (hf_request (the (HUGGINGFACE_API_TOKEN cfg)) prompt (hf_model cfg model)
                   max_tokens temperature) of
           (Inr v, calls) \<Rightarrow> (v, calls)
         | (Inl e, calls) \<Rightarrow> (JStr (hf_exception_text lib e), calls)))"

subsection \<open>Watson Assistant\<close>

text \<open>\<^verbatim>\<open>call_watson_assistant(message)\<close>, lines 56 to 85.\<close>

definition watson_base :: "string \<Rightarrow> string \<Rightarrow> string" where
  "watson_base wurl assistant_id = wurl @ ''/v2/assistants/'' @ assistant_id @ ''/sessions''"

definition session_request :: "string \<Rightarrow> string \<Rightarrow> string \<Rightarrow> request" where
  "session_request apikey wurl assistant_id =
     \<lparr> meth = POST,
       url = watson_base wurl assistant_id @ ''?version=2024-10-01'',
       auth = Some (''apikey'', apikey),
       headers = [(''Content-Type'', ''application/json'')],
       payload = None,
       timeout = 20 \<rparr>"

definition message_request :: "string \<Rightarrow> string \<Rightarrow> string \<Rightarrow> string \<Rightarrow> string \<Rightarrow> request" where
  "message_request apikey wurl assistant_id session_id message =
     \<lparr> meth = POST,
       url = watson_base wurl assistant_id @ ''/'' @ session_id @ ''/message?version=2024-10-01'',
       auth = Some (''apikey'', apikey),
       headers = [(''Content-Type'', ''application/json'')],
       payload = Some (JObj [(''input'', JObj [(''message_type'', JStr ''text''),
                                               (''text'', JStr message)])]),
       timeout = 20 \<rparr>"

definition delete_request :: "string \<Rightarrow> string \<Rightarrow> string \<Rightarrow> string \<Rightarrow> request" where
  "delete_request apikey wurl assistant_id session_id =
     \<lparr> meth = DELETE,
       url = watson_base wurl assistant_id @ ''/'' @ session_id @ ''?version=2024-10-01'',
       auth = Some (''apikey'', apikey),
       headers = [],
       payload = None,
       timeout = 5 \<rparr>"

text \<open>Lines 79 to 82: the loop over the generic entries, \<open>texts\<close> being the list so far.\<close>

fun collect_texts :: "json list \<Rightarrow> json list \<Rightarrow> exc + json list" where
  "collect_texts [] texts = Inr texts"
| "collect_texts (r # rs) texts =
     (case py_get r ''response_type'' JNull of
        Inl e \<Rightarrow> Inl e
      | Inr t \<Rightarrow>
          (if t = JStr ''text'' then
             (case py_get r ''text'' (JStr []) of
                Inl e \<Rightarrow> Inl e
              | Inr x \<Rightarrow> collect_texts rs (texts @ [x]))
           else collect_texts rs texts))"

text \<open>Lines 79 to 83: from the decoded message response to the returned value.\<close>

definition watson_output :: "pylib \<Rightarrow> json \<Rightarrow> exc + json" where
  "watson_output lib out =
     (case py_get out ''output'' (JObj []) of
        Inl e \<Rightarrow> Inl e
      | Inr output \<Rightarrow>
          (case py_get output ''generic'' (JArr []) of
             Inl e \<Rightarrow> Inl e
           | Inr generic \<Rightarrow>
               (case py_iter generic of
                  Inl e \<Rightarrow> Inl e
                | Inr rs \<Rightarrow>
                    (case collect_texts rs [] of
                       Inl e \<Rightarrow> Inl e
                     | Inr texts \<Rightarrow>
                         (if texts \<noteq> [] then
                            (case py_join bsn texts of
                               Inl e \<Rightarrow> Inl e
                             | Inr s \<Rightarrow> Inr (JStr s))
                          else Inr (JStr (dumps lib out)))))))"

text \<open>
  Lines 62 to 83: the body of the \<^verbatim>\<open>try\<close>. The result of the \<^verbatim>\<open>DELETE\<close> call, a
  response or an exception, is dropped (lines 74 to 78).
\<close>

definition watson_try ::
  "pylib \<Rightarrow> network \<Rightarrow> string \<Rightarrow> string \<Rightarrow> string \<Rightarrow> string \<Rightarrow> (exc + json) \<times> request list" where
  "watson_try lib net apikey wurl assistant_id message =
     (case http_call net [] (session_request apikey wurl assistant_id) of
        (Inl e, log1) \<Rightarrow> (Inl e, log1)
      | (Inr sess, log1) \<Rightarrow>
          (case raise_for_status sess of
             Inl e \<Rightarrow> (Inl e, log1)
           | Inr u \<Rightarrow>
               (case json_result sess of
                  Inl e \<Rightarrow> (Inl e, log1)
                | Inr sj \<Rightarrow>
                    (case py_get sj ''session_id'' JNull of
                       Inl e \<Rightarrow> (Inl e, log1)
                     | Inr session_id \<Rightarrow>
                         (case http_call net log1
                                 (message_request apikey wurl assistant_id
                                    (format_value lib session_id) message) of
                            (Inl e, log2) \<Rightarrow> (Inl e, log2)
                          | (Inr resp, log2) \<Rightarrow>
                              (case raise_for_status resp of
                                 Inl e \<Rightarrow> (Inl e, log2)
                               | Inr u' \<Rightarrow>
                                   (case json_result resp of
                                      Inl e \<Rightarrow> (Inl e, log2)
                                    | Inr out \<Rightarrow>
                                        (case http_call net log2
                                                (delete_request apikey wurl assistant_id
                                                   (format_value lib session_id)) of
                                           (dropped, log3) \<Rightarrow> (watson_output lib out, log3)))))))))"

text \<open>Line 85, the text made from an exception.\<close>

definition watson_exception_text :: "pylib \<Rightarrow> exc \<Rightarrow> string" where
  "watson_exception_text lib e = ''Exception calling Watson Assistant: '' @ str_exc lib e"

definition call_watson_assistant ::
  "config \<Rightarrow> pylib \<Rightarrow> network \<Rightarrow> string \<Rightarrow> json \<times> request list" where
  "call_watson_assistant cfg lib net message =
     (if \<not> (truthy (WATSON_APIKEY cfg) \<and> truthy (WATSON_URL cfg)
             \<and> truthy (WATSON_ASSISTANT_ID cfg)) then
        (JStr ''Watson not configured.'', [])
      else
        (case watson_try lib net (the (WATSON_APIKEY cfg)) (the (WATSON_URL cfg))
                (the (WATSON_ASSISTANT_ID cfg)) message of
           (Inr v, calls) \<Rightarrow> (v, calls)
         | (Inl e, calls) \<Rightarrow> (JStr (watson_exception_text lib e), calls)))"

subsection \<open>Floats\<close>

text \<open>
  A Python float is an IEEE 754 binary64 number. A finite float is modelled by the rational
  number it denotes, and an arithmetic operation by the exact operation followed by
  rounding to 53 significant bits, to nearest, ties to even. Infinities, NaN, the sign of
  zero and the subnormal range are not modelled: the model agrees with Python wherever
  every intermediate result has a magnitude from \<open>2 powi (-1022)\<close> up to the largest
  finite float, or is zero.
\<close>

definition round_half_even :: "rat \<Rightarrow> int" where
  "round_half_even x =
     (let f = \<lfloor>x\<rfloor>; d = x - of_int f
      in if d < 1/2 then f else if 1/2 < d then f + 1 else if even f then f else f + 1)"

text \<open>The exponent of a positive number: the \<open>k\<close> with \<open>2 powi k \<le> x < 2 powi (k + 1)\<close>.\<close>

definition ilog2 :: "rat \<Rightarrow> int" where
  "ilog2 x =
     (if 1 \<le> x then int (floorlog 2 (nat \<lfloor>x\<rfloor>)) - 1
      else - int (floorlog 2 (nat (\<lceil>1 / x\<rceil> - 1))))"

definition binary64 :: "rat \<Rightarrow> rat" where
  "binary64 x =
     (if x = 0 then 0
      else (let e = ilog2 \<bar>x\<bar> - 52
            in of_int (round_half_even (x / (2 powi e))) * (2 powi e)))"

definition fmul :: "rat \<Rightarrow> rat \<Rightarrow> rat" where
  "fmul x y = binary64 (x * y)"

definition fsub :: "rat \<Rightarrow> rat \<Rightarrow> rat" where
  "fsub x y = binary64 (x - y)"

definition fadd :: "rat \<Rightarrow> rat \<Rightarrow> rat" where
  "fadd x y = binary64 (x + y)"

text \<open>
  \<^verbatim>\<open>format(x, ',.2f')\<close> and \<^verbatim>\<open>format(x, '.0f')\<close>: the float's exact value rounded to the
  given number of decimals, ties to even, the integer part grouped in threes by commas when
  asked, a minus sign for a negative float.
\<close>

definition digit_char :: "nat \<Rightarrow> char" where
  "digit_char d = ''0123456789'' ! d"

function digits :: "nat \<Rightarrow> string" where
  "digits n = (if n < 10 then [digit_char n] else digits (n div 10) @ [digit_char (n mod 10)])"
  by pat_completeness auto
termination
  by (relation "measure (\<lambda>n. n)") auto

fun group3 :: "string \<Rightarrow> string" where
  "group3 (a # b # c # d # rest) = a # b # c # CHR '','' # group3 (d # rest)"
| "group3 ds = ds"

definition with_commas :: "string \<Rightarrow> string" where
  "with_commas s = rev (group3 (rev s))"

definition pad_zeros :: "nat \<Rightarrow> string \<Rightarrow> string" where
  "pad_zeros w s = replicate (w - length s) CHR ''0'' @ s"

definition format_fixed :: "bool \<Rightarrow> nat \<Rightarrow> rat \<Rightarrow> string" where
  "format_fixed grouping prec x =
     (let n = nat (round_half_even (\<bar>x\<bar> * 10 ^ prec));
          whole = digits (n div 10 ^ prec);
          frac = pad_zeros prec (digits (n mod 10 ^ prec))
      in (if x < 0 then ''-'' else []) @
         (if grouping then with_commas whole else whole) @
         (if prec = 0 then [] else ''.'' @ frac))"

subsection \<open>Budget summary\<close>

text \<open>
  \<^verbatim>\<open>generate_budget_summary(income, essentials_pct, savings_pct)\<close>, lines 98 to 108.
  \<open>budget_amounts\<close> is lines 99 to 101, the three amounts. The rupee sign of the source is
  the three bytes of its UTF-8 encoding. The defaults are the floats that the literals
  \<^verbatim>\<open>0.5\<close> and \<^verbatim>\<open>0.2\<close> denote.
\<close>

definition rupee :: string where
  "rupee = [CHR 0xE2, CHR 0x82, CHR 0xB9]"

definition default_essentials_pct :: rat where
  "default_essentials_pct = binary64 (5 / 10)"

definition default_savings_pct :: rat where
  "default_savings_pct = binary64 (2 / 10)"

definition budget_amounts :: "rat \<Rightarrow> rat \<Rightarrow> rat \<Rightarrow> rat \<times> rat \<times> rat" where
  "budget_amounts income essentials_pct savings_pct =
     (let essentials = fmul income essentials_pct;
          savings = fmul income savings_pct;
          discretionary = fsub (fsub income essentials) savings
      in (essentials, savings, discretionary))"

definition generate_budget_summary :: "rat \<Rightarrow> rat \<Rightarrow> rat \<Rightarrow> string" where
  "generate_budget_summary income essentials_pct savings_pct =
     (case budget_amounts income essentials_pct savings_pct of
        (essentials, savings, discretionary) \<Rightarrow>
          ''Monthly Budget Summary:'' @ bsn @
          ''Total income: '' @ rupee @ format_fixed True 2 income @ bsn @
          ''Essentials ('' @ format_fixed False 0 (fmul essentials_pct 100) @ ''%): '' @
            rupee @ format_fixed True 2 essentials @ bsn @
          ''Savings ('' @ format_fixed False 0 (fmul savings_pct 100) @ ''%): '' @
            rupee @ format_fixed True 2 savings @ bsn @
          ''Discretionary: '' @ rupee @ format_fixed True 2 discretionary @ bsn)"

subsection \<open>The request flow\<close>

text \<open>
  The handler of the \<^verbatim>\<open>Get Answer\<close> button, lines 137 to 154: the branch taken when the
  question is not blank. \<open>request_prompt\<close> is lines 138 to 140, the prompt handed to the
  chosen client. What the handler shows is the list of its display calls, in order.
\<close>

definition request_prompt :: "string \<Rightarrow> string \<Rightarrow> rat \<Rightarrow> string" where
  "request_prompt user_q persona income =
     (let prompt = build_prompt user_q persona
      in if 0 < income then
           prompt @ bsn @ bsn @ ''Reference budget (income info):'' @ bsn @
           generate_budget_summary income default_essentials_pct default_savings_pct
         else prompt)"

datatype display =
    Info string
  | Subheader string
  | Write_value json
  | Markdown string
  | Code string

definition emdash :: string where
  "emdash = [CHR 0xE2, CHR 0x80, CHR 0x94]"

definition get_answer ::
  "config \<Rightarrow> pylib \<Rightarrow> network \<Rightarrow> string \<Rightarrow> string \<Rightarrow> string \<Rightarrow> rat \<Rightarrow> display list \<times> request list" where
  "get_answer cfg lib net backend persona user_q income =
     (let prompt = request_prompt user_q persona income;
          (shown, calls) =
            (if prefix ''Granite'' backend then
               (case call_hf_inference cfg lib net prompt (Some (GRANITE_MODEL cfg)) 400
                       (binary64 (2 / 10)) of
                  (hf_resp, calls) \<Rightarrow>
                    ([Subheader ''Granite (Hugging Face) response'', Write_value hf_resp], calls))
             else
               (case call_watson_assistant cfg lib net prompt of
                  (watson_resp, calls) \<Rightarrow>
                    ([Subheader ''Watson Assistant response'', Write_value watson_resp], calls)))
      in ([Info (''Generating response '' @ emdash @ '' this may take a few seconds.'')] @ shown @
          (if 0 < income then
             [Markdown ''---'', Subheader ''Local budget summary'',
              Code (generate_budget_summary income default_essentials_pct default_savings_pct)]
           else []),
          calls))"

subsection \<open>Sample environments\<close>

text \<open>Concrete library functions, configurations and networks, for the concrete runs below.\<close>

definition sample_lib :: pylib where
  "sample_lib = \<lparr> str_exc = (\<lambda>e. ''boom''), dumps = (\<lambda>v. ''{}''), str_value = (\<lambda>v. ''None'') \<rparr>"

definition cfg_unset :: config where
  "cfg_unset =
     \<lparr> HUGGINGFACE_API_TOKEN = None,
       GRANITE_MODEL = ''ibm-granite/granite-3.3-2b-instruct'',
       WATSON_APIKEY = Some [],
       WATSON_URL = Some [],
       WATSON_ASSISTANT_ID = Some [] \<rparr>"

definition cfg_set :: config where
  "cfg_set =
     \<lparr> HUGGINGFACE_API_TOKEN = Some ''hf_token'',
       GRANITE_MODEL = ''ibm-granite/granite-3.3-2b-instruct'',
       WATSON_APIKEY = Some ''key'',
       WATSON_URL = Some ''https://watson.example'',
       WATSON_ASSISTANT_ID = Some ''assistant'' \<rparr>"

definition cfg_hf_only :: config where
  "cfg_hf_only =
     \<lparr> HUGGINGFACE_API_TOKEN = Some ''hf_token'',
       GRANITE_MODEL = ''ibm-granite/granite-3.3-2b-instruct'',
       WATSON_APIKEY = None,
       WATSON_URL = None,
       WATSON_ASSISTANT_ID = None \<rparr>"

definition cfg_watson_only :: config where
  "cfg_watson_only =
     \<lparr> HUGGINGFACE_API_TOKEN = None,
       GRANITE_MODEL = ''ibm-granite/granite-3.3-2b-instruct'',
       WATSON_APIKEY = Some ''key'',
       WATSON_URL = Some ''https://watson.example'',
       WATSON_ASSISTANT_ID = Some ''assistant'' \<rparr>"

definition net_down :: network where
  "net_down calls req = Inl (RequestException ''connection refused'')"

definition ok_response :: "json \<Rightarrow> response" where
  "ok_response j = \<lparr> status_code = 200, json_result = Inr j \<rparr>"

definition session_reply :: json where
  "session_reply = JObj [(''session_id'', JStr ''s1'')]"

definition two_texts_reply :: json where
  "two_texts_reply =
     JObj [(''output'', JObj [(''generic'', JArr
       [JObj [(''response_type'', JStr ''text''), (''text'', JStr ''a'')],
        JObj [(''response_type'', JStr ''text''), (''text'', JStr ''b'')]])])]"

definition net_reply :: "json \<Rightarrow> network" where
  "net_reply j calls req = Inr (ok_response j)"

definition net_http_500 :: network where
  "net_http_500 calls req = Inr \<lparr> status_code = 500, json_result = Inr JNull \<rparr>"

definition net_two_texts :: network where
  "net_two_texts calls req =
     (if calls = [] then Inr (ok_response session_reply)
      else if meth req = DELETE then Inr (ok_response JNull)
      else Inr (ok_response two_texts_reply))"

definition net_message_fails :: network where
  "net_message_fails calls req =
     (if calls = [] then Inr (ok_response session_reply)
      else Inl (RequestException ''timed out''))"

definition net_teardown_fails :: network where
  "net_teardown_fails calls req =
     (if calls = [] then Inr (ok_response session_reply)
      else if meth req = DELETE then Inl (RequestException ''timed out'')
      else Inr (ok_response two_texts_reply))"

text \<open>
  Well-formed message replies, for stating what \<open>call_watson_assistant\<close> returns on them:
  a reply whose generic entries are objects with a string \<^verbatim>\<open>response_type\<close> and a string
  \<^verbatim>\<open>text\<close>. \<open>text_segments\<close> follows the specification's words: the texts of the entries
  tagged \<^verbatim>\<open>text\<close>, in the order they appear; \<open>join_with\<close> puts a separator between
  consecutive strings.
\<close>

definition generic_entry :: "string \<Rightarrow> string \<Rightarrow> json" where
  "generic_entry rtype txt = JObj [(''response_type'', JStr rtype), (''text'', JStr txt)]"

definition message_reply :: "(string \<times> string) list \<Rightarrow> json" where
  "message_reply es =
     JObj [(''output'', JObj [(''generic'', JArr (map (\<lambda>(t, s). generic_entry t s) es))])]"

definition text_segments :: "(string \<times> string) list \<Rightarrow> string list" where
  "text_segments es = map snd (filter (\<lambda>(t, s). t = ''text'') es)"

fun join_with :: "string \<Rightarrow> string list \<Rightarrow> string" where
  "join_with sep [] = []"
| "join_with sep [s] = s"
| "join_with sep (s # t # ss) = s @ sep @ join_with sep (t # ss)"

section \<open>Properties of the prompt builder\<close>

text \<open>
  C5. For each of the two personas, student and professional, and every non-empty question,
  the prompt that \<open>build_prompt\<close> returns contains the question text as a contiguous piece
  and ends with the marker \<^verbatim>\<open>Output:\<close>.
\<close>

theorem build_prompt_contains_question_ends_output:
  assumes "persona \<in> {''student'', ''professional''}" and "user_question \<noteq> []"
  shows "sublist user_question (build_prompt user_question persona)
         \<and> suffix ''Output:'' (build_prompt user_question persona)"
proof
  have "build_prompt user_question persona =
          (''You are a helpful personal finance assistant. '' @ tone_of persona @ '' '' @
           depth_of persona @ bsn @ bsn @ ''User question: '') @ user_question @
          (bsn @ bsn @ ''Output:'')"
    by (simp add: build_prompt_def)
  then show "sublist user_question (build_prompt user_question persona)"
    unfolding sublist_def by blast
next
  have "build_prompt user_question persona =
          (''You are a helpful personal finance assistant. '' @ tone_of persona @ '' '' @
           depth_of persona @ bsn @ bsn @ ''User question: '' @ user_question @ bsn @ bsn) @
          ''Output:''"
    by (simp add: build_prompt_def)
  then show "suffix ''Output:'' (build_prompt user_question persona)"
    unfolding suffix_def by blast
qed

theorem build_prompt_contains_question_ends_output_witness:
  "''professional'' \<in> {''student'', ''professional''} \<and> ''Save?'' \<noteq> []
   \<and> sublist ''Save?'' (build_prompt ''Save?'' ''professional'')
   \<and> suffix ''Output:'' (build_prompt ''Save?'' ''professional'')"
  using build_prompt_contains_question_ends_output [of "''professional''" "''Save?''"]
  by simp

text \<open>
  C10. Every persona string other than \<^verbatim>\<open>student\<close>, inside or outside the documented
  two values, gets the professional tone and depth text: the prompt is the one built for
  \<^verbatim>\<open>professional\<close>, and \<open>build_prompt\<close> has no failure branch for an unknown persona.
\<close>

theorem build_prompt_non_student_is_professional:
  assumes "persona \<noteq> ''student''"
  shows "build_prompt user_question persona =
           ''You are a helpful personal finance assistant. '' @ professional_tone @ '' '' @
           professional_depth @ bsn @ bsn @ ''User question: '' @ user_question @ bsn @ bsn @
           ''Output:''
         \<and> build_prompt user_question persona = build_prompt user_question ''professional''"
  using assms by (simp add: build_prompt_def tone_of_def depth_of_def)

theorem build_prompt_non_student_is_professional_witness:
  "'''' \<noteq> ''student''
   \<and> build_prompt ''Save?'' '''' =
       ''You are a helpful personal finance assistant. '' @ professional_tone @ '' '' @
       professional_depth @ bsn @ bsn @ ''User question: '' @ ''Save?'' @ bsn @ bsn @
       ''Output:''
   \<and> build_prompt ''Save?'' '''' = build_prompt ''Save?'' ''professional''"
proof -
  have h: "'''' \<noteq> ''student''" by simp
  show ?thesis
    using h build_prompt_non_student_is_professional [OF h, of "''Save?''"] by blast
qed

section \<open>Properties of the two clients\<close>

text \<open>
  C4. With the Hugging Face token unset (absent or empty), \<open>call_hf_inference\<close> returns a
  string that contains \<^verbatim>\<open>token not set\<close> and makes no network call. With any of the three
  Watson values unset, \<open>call_watson_assistant\<close> returns \<^verbatim>\<open>Watson not configured.\<close> and
  makes no network call.
\<close>

theorem unconfigured_clients_return_without_network:
  "(\<not> truthy (HUGGINGFACE_API_TOKEN cfg) \<longrightarrow>
      call_hf_inference cfg lib net prompt model max_tokens temperature =
        (JStr ''ERROR: HUGGINGFACE API token not set.'', [])
      \<and> sublist ''token not set'' ''ERROR: HUGGINGFACE API token not set.'')
   \<and> (\<not> truthy (WATSON_APIKEY cfg) \<or> \<not> truthy (WATSON_URL cfg)
        \<or> \<not> truthy (WATSON_ASSISTANT_ID cfg) \<longrightarrow>
      call_watson_assistant cfg lib net message = (JStr ''Watson not configured.'', []))"
proof -
  have "''ERROR: HUGGINGFACE API token not set.'' =
          ''ERROR: HUGGINGFACE API '' @ ''token not set'' @ ''.''"
    by simp
  then have "sublist ''token not set'' ''ERROR: HUGGINGFACE API token not set.''"
    unfolding sublist_def by blast
  then show ?thesis
    by (auto simp: call_hf_inference_def call_watson_assistant_def)
qed

theorem unconfigured_clients_return_without_network_witness:
  "\<not> truthy (HUGGINGFACE_API_TOKEN cfg_unset)
   \<and> call_hf_inference cfg_unset sample_lib net_down ''q'' None 400 (1/5) =
        (JStr ''ERROR: HUGGINGFACE API token not set.'', [])
   \<and> sublist ''token not set'' ''ERROR: HUGGINGFACE API token not set.''
   \<and> \<not> truthy (WATSON_APIKEY cfg_unset)
   \<and> call_watson_assistant cfg_unset sample_lib net_down ''q'' =
        (JStr ''Watson not configured.'', [])"
proof -
  have h1: "\<not> truthy (HUGGINGFACE_API_TOKEN cfg_unset)"
    by (simp add: truthy_def cfg_unset_def)
  have h2: "\<not> truthy (WATSON_APIKEY cfg_unset)"
    by (simp add: truthy_def cfg_unset_def)
  show ?thesis
    using h1 h2
      unconfigured_clients_return_without_network
        [of cfg_unset sample_lib net_down "''q''" None 400 "1/5" "''q''"]
    by blast
qed

lemmas client_defs = call_hf_inference_def call_watson_assistant_def hf_try_def watson_try_def
  http_call_def truthy_def

lemmas request_defs = hf_request_def session_request_def message_request_def delete_request_def
  watson_base_def

lemmas sample_defs = cfg_set_def ok_response_def session_reply_def two_texts_reply_def
  raise_for_status_def py_get_def format_value_def

lemma exception_text_prefix:
  "prefix ''Exception calling'' (hf_exception_text lib e)"
  "prefix ''Exception calling'' (watson_exception_text lib e)"
  by (simp_all add: hf_exception_text_def watson_exception_text_def)

text \<open>
  C1, as the code has it. An exception raised by the POST of \<open>call_hf_inference\<close>, or by
  the session-creation POST or the message POST of \<open>call_watson_assistant\<close>, becomes the
  returned string, which starts with \<^verbatim>\<open>Exception calling\<close>; the client returns a value and
  raises nothing. Every exception raised by the teardown DELETE is dropped: the client
  returns what it computes from the message reply, whatever that exception is. The first
  part needs the Hugging Face token only, the others the three Watson values only.
\<close>

theorem post_exception_becomes_text:
  "(HUGGINGFACE_API_TOKEN cfg = Some tok \<and> tok \<noteq> []
      \<and> netA [] (hf_request tok prompt (hf_model cfg model) max_tokens temperature) = Inl e \<longrightarrow>
        fst (call_hf_inference cfg lib netA prompt model max_tokens temperature) =
          JStr (hf_exception_text lib e)
        \<and> prefix ''Exception calling'' (hf_exception_text lib e))
   \<and> (WATSON_APIKEY cfg = Some k \<and> k \<noteq> [] \<and> WATSON_URL cfg = Some u \<and> u \<noteq> []
        \<and> WATSON_ASSISTANT_ID cfg = Some a \<and> a \<noteq> [] \<longrightarrow>
        (netB [] (session_request k u a) = Inl e \<longrightarrow>
           fst (call_watson_assistant cfg lib netB message) = JStr (watson_exception_text lib e)
           \<and> prefix ''Exception calling'' (watson_exception_text lib e))
        \<and> (netC [] (session_request k u a) = Inr sess \<and> raise_for_status sess = Inr ()
             \<and> json_result sess = Inr sj \<and> py_get sj ''session_id'' JNull = Inr sid
             \<and> netC [session_request k u a]
                  (message_request k u a (format_value lib sid) message) = Inl e \<longrightarrow>
           fst (call_watson_assistant cfg lib netC message) = JStr (watson_exception_text lib e)
           \<and> prefix ''Exception calling'' (watson_exception_text lib e))
        \<and> (netD [] (session_request k u a) = Inr sess \<and> raise_for_status sess = Inr ()
             \<and> json_result sess = Inr sj \<and> py_get sj ''session_id'' JNull = Inr sid
             \<and> netD [session_request k u a]
                  (message_request k u a (format_value lib sid) message) = Inr resp
             \<and> raise_for_status resp = Inr () \<and> json_result resp = Inr out
             \<and> netD [session_request k u a,
                      message_request k u a (format_value lib sid) message]
                  (delete_request k u a (format_value lib sid)) = Inl e \<longrightarrow>
           call_watson_assistant cfg lib netD message =
             ((case watson_output lib out of
                 Inr v \<Rightarrow> v
               | Inl e' \<Rightarrow> JStr (watson_exception_text lib e')),
              [session_request k u a,
               message_request k u a (format_value lib sid) message,
               delete_request k u a (format_value lib sid)])))"
  by (auto simp: client_defs exception_text_prefix split: sum.splits)

theorem post_exception_becomes_text_witness:
  "HUGGINGFACE_API_TOKEN cfg_hf_only = Some ''hf_token'' \<and> ''hf_token'' \<noteq> []
   \<and> net_down [] (hf_request ''hf_token'' ''q'' (hf_model cfg_hf_only None) 400 (1/5)) =
        Inl (RequestException ''connection refused'')
   \<and> fst (call_hf_inference cfg_hf_only sample_lib net_down ''q'' None 400 (1/5)) =
        JStr (hf_exception_text sample_lib (RequestException ''connection refused''))
   \<and> WATSON_APIKEY cfg_watson_only = Some ''key'' \<and> ''key'' \<noteq> []
   \<and> WATSON_URL cfg_watson_only = Some ''https://watson.example''
   \<and> ''https://watson.example'' \<noteq> []
   \<and> WATSON_ASSISTANT_ID cfg_watson_only = Some ''assistant'' \<and> ''assistant'' \<noteq> []
   \<and> net_down [] (session_request ''key'' ''https://watson.example'' ''assistant'') =
        Inl (RequestException ''connection refused'')
   \<and> fst (call_watson_assistant cfg_watson_only sample_lib net_down ''q'') =
        JStr (watson_exception_text sample_lib (RequestException ''connection refused''))
   \<and> net_message_fails [] (session_request ''key'' ''https://watson.example'' ''assistant'') =
        Inr (ok_response session_reply)
   \<and> raise_for_status (ok_response session_reply) = Inr ()
   \<and> json_result (ok_response session_reply) = Inr session_reply
   \<and> py_get session_reply ''session_id'' JNull = Inr (JStr ''s1'')
   \<and> net_message_fails [session_request ''key'' ''https://watson.example'' ''assistant'']
        (message_request ''key'' ''https://watson.example'' ''assistant''
           (format_value sample_lib (JStr ''s1'')) ''q'') = Inl (RequestException ''timed out'')
   \<and> fst (call_watson_assistant cfg_watson_only sample_lib net_message_fails ''q'') =
        JStr (watson_exception_text sample_lib (RequestException ''timed out''))
   \<and> net_teardown_fails [] (session_request ''key'' ''https://watson.example'' ''assistant'') =
        Inr (ok_response session_reply)
   \<and> net_teardown_fails [session_request ''key'' ''https://watson.example'' ''assistant'']
        (message_request ''key'' ''https://watson.example'' ''assistant''
           (format_value sample_lib (JStr ''s1'')) ''q'') = Inr (ok_response two_texts_reply)
   \<and> raise_for_status (ok_response two_texts_reply) = Inr ()
   \<and> json_result (ok_response two_texts_reply) = Inr two_texts_reply
   \<and> net_teardown_fails
        [session_request ''key'' ''https://watson.example'' ''assistant'',
         message_request ''key'' ''https://watson.example'' ''assistant''
           (format_value sample_lib (JStr ''s1'')) ''q'']
        (delete_request ''key'' ''https://watson.example'' ''assistant''
           (format_value sample_lib (JStr ''s1''))) = Inl (RequestException ''timed out'')
   \<and> call_watson_assistant cfg_watson_only sample_lib net_teardown_fails ''q'' =
        ((case watson_output sample_lib two_texts_reply of
            Inr v \<Rightarrow> v
          | Inl e' \<Rightarrow> JStr (watson_exception_text sample_lib e')),
         [session_request ''key'' ''https://watson.example'' ''assistant'',
          message_request ''key'' ''https://watson.example'' ''assistant''
            (format_value sample_lib (JStr ''s1'')) ''q'',
          delete_request ''key'' ''https://watson.example'' ''assistant''
            (format_value sample_lib (JStr ''s1''))])"
proof -
  have h: "HUGGINGFACE_API_TOKEN cfg_hf_only = Some ''hf_token''" "''hf_token'' \<noteq> []"
    by (simp_all add: cfg_hf_only_def)
  have w: "WATSON_APIKEY cfg_watson_only = Some ''key''" "''key'' \<noteq> []"
    "WATSON_URL cfg_watson_only = Some ''https://watson.example''"
    "''https://watson.example'' \<noteq> []"
    "WATSON_ASSISTANT_ID cfg_watson_only = Some ''assistant''" "''assistant'' \<noteq> []"
    by (simp_all add: cfg_watson_only_def)
  have n1: "net_down [] (hf_request ''hf_token'' ''q'' (hf_model cfg_hf_only None) 400 (1/5)) =
        Inl (RequestException ''connection refused'')"
    and n2: "net_down [] (session_request ''key'' ''https://watson.example'' ''assistant'') =
        Inl (RequestException ''connection refused'')"
    by (simp_all add: net_down_def)
  have s: "raise_for_status (ok_response session_reply) = Inr ()"
    "json_result (ok_response session_reply) = Inr session_reply"
    "py_get session_reply ''session_id'' JNull = Inr (JStr ''s1'')"
    by (simp_all add: sample_defs)
  have n3: "net_message_fails [] (session_request ''key'' ''https://watson.example'' ''assistant'') =
        Inr (ok_response session_reply)"
    "net_message_fails [session_request ''key'' ''https://watson.example'' ''assistant'']
        (message_request ''key'' ''https://watson.example'' ''assistant''
           (format_value sample_lib (JStr ''s1'')) ''q'') = Inl (RequestException ''timed out'')"
    by (simp_all add: net_message_fails_def)
  have n4: "net_teardown_fails [] (session_request ''key'' ''https://watson.example'' ''assistant'') =
        Inr (ok_response session_reply)"
    "net_teardown_fails [session_request ''key'' ''https://watson.example'' ''assistant'']
        (message_request ''key'' ''https://watson.example'' ''assistant''
           (format_value sample_lib (JStr ''s1'')) ''q'') = Inr (ok_response two_texts_reply)"
    "raise_for_status (ok_response two_texts_reply) = Inr ()"
    "json_result (ok_response two_texts_reply) = Inr two_texts_reply"
    "net_teardown_fails
        [session_request ''key'' ''https://watson.example'' ''assistant'',
         message_request ''key'' ''https://watson.example'' ''assistant''
           (format_value sample_lib (JStr ''s1'')) ''q'']
        (delete_request ''key'' ''https://watson.example'' ''assistant''
           (format_value sample_lib (JStr ''s1''))) = Inl (RequestException ''timed out'')"
    by (simp_all add: net_teardown_fails_def sample_defs request_defs)
  have t1: "fst (call_hf_inference cfg_hf_only sample_lib net_down ''q'' None 400 (1/5)) =
        JStr (hf_exception_text sample_lib (RequestException ''connection refused''))"
    using post_exception_becomes_text
        [where cfg = cfg_hf_only and netA = net_down and prompt = "''q''" and model = None
           and max_tokens = 400 and temperature = "1/5" and lib = sample_lib
           and tok = "''hf_token''" and e = "RequestException ''connection refused''"] h n1
    by blast
  have t2: "fst (call_watson_assistant cfg_watson_only sample_lib net_down ''q'') =
        JStr (watson_exception_text sample_lib (RequestException ''connection refused''))"
    using post_exception_becomes_text
        [where cfg = cfg_watson_only and netB = net_down and message = "''q''"
           and lib = sample_lib and k = "''key''" and u = "''https://watson.example''"
           and a = "''assistant''" and e = "RequestException ''connection refused''"] w n2
    by blast
  have t3: "fst (call_watson_assistant cfg_watson_only sample_lib net_message_fails ''q'') =
        JStr (watson_exception_text sample_lib (RequestException ''timed out''))"
    using post_exception_becomes_text
        [where cfg = cfg_watson_only and netC = net_message_fails and message = "''q''"
           and lib = sample_lib and k = "''key''" and u = "''https://watson.example''"
           and a = "''assistant''" and e = "RequestException ''timed out''"
           and sess = "ok_response session_reply" and sj = session_reply
           and sid = "JStr ''s1''"] w s n3
    by blast
  have t4: "call_watson_assistant cfg_watson_only sample_lib net_teardown_fails ''q'' =
        ((case watson_output sample_lib two_texts_reply of
            Inr v \<Rightarrow> v
          | Inl e' \<Rightarrow> JStr (watson_exception_text sample_lib e')),
         [session_request ''key'' ''https://watson.example'' ''assistant'',
          message_request ''key'' ''https://watson.example'' ''assistant''
            (format_value sample_lib (JStr ''s1'')) ''q'',
          delete_request ''key'' ''https://watson.example'' ''assistant''
            (format_value sample_lib (JStr ''s1''))])"
    using post_exception_becomes_text
        [where cfg = cfg_watson_only and netD = net_teardown_fails and message = "''q''"
           and lib = sample_lib and k = "''key''" and u = "''https://watson.example''"
           and a = "''assistant''" and e = "RequestException ''timed out''"
           and sess = "ok_response session_reply" and sj = session_reply
           and sid = "JStr ''s1''" and resp = "ok_response two_texts_reply"
           and out = two_texts_reply] w s n4
    by blast
  show ?thesis
    using h w n1 n2 s n3 n4 t1 t2 t3 t4 by blast
qed

text \<open>
  C1 as stated fails for the third network call of \<open>call_watson_assistant\<close>: here the
  teardown DELETE raises, and the client returns the reply text, which does not start with
  \<^verbatim>\<open>Exception calling\<close>.
\<close>

theorem teardown_exception_not_reported:
  "net_teardown_fails
      [session_request ''key'' ''https://watson.example'' ''assistant'',
       message_request ''key'' ''https://watson.example'' ''assistant'' ''s1'' ''hi'']
      (delete_request ''key'' ''https://watson.example'' ''assistant'' ''s1'') =
        Inl (RequestException ''timed out'')
   \<and> call_watson_assistant cfg_set sample_lib net_teardown_fails ''hi'' =
        (JStr [CHR ''a'', CHR 0x5C, CHR ''n'', CHR ''b''],
         [session_request ''key'' ''https://watson.example'' ''assistant'',
          message_request ''key'' ''https://watson.example'' ''assistant'' ''s1'' ''hi'',
          delete_request ''key'' ''https://watson.example'' ''assistant'' ''s1''])
   \<and> \<not> prefix ''Exception calling'' [CHR ''a'', CHR 0x5C, CHR ''n'', CHR ''b'']"
  by (simp add: client_defs sample_defs net_teardown_fails_def watson_output_def py_iter_def
      py_join_def bsn_def request_defs)

text \<open>
  C9. When the session-creation call fails, by raising or by an HTTP error status, the
  client returns the exception text and its only network call is the session request: no
  message request is made. In every run the calls made are an initial part of the sequence
  session request, message request, delete request, so each step is called at most once.
\<close>

theorem session_failure_aborts_and_no_retries:
  assumes "WATSON_APIKEY cfg = Some k" and "k \<noteq> []"
    and "WATSON_URL cfg = Some u" and "u \<noteq> []"
    and "WATSON_ASSISTANT_ID cfg = Some a" and "a \<noteq> []"
  shows "(netA [] (session_request k u a) = Inl e \<longrightarrow>
            call_watson_assistant cfg lib netA message =
              (JStr (watson_exception_text lib e), [session_request k u a]))
       \<and> (netB [] (session_request k u a) = Inr sess \<and> raise_for_status sess = Inl e \<longrightarrow>
            call_watson_assistant cfg lib netB message =
              (JStr (watson_exception_text lib e), [session_request k u a]))
       \<and> message_request k u a sid' message \<noteq> session_request k u a
       \<and> (\<exists>sid. prefix (snd (call_watson_assistant cfg lib net message))
                   [session_request k u a, message_request k u a sid message,
                    delete_request k u a sid])"
proof -
  have "\<exists>sid. prefix (snd (call_watson_assistant cfg lib net message))
                   [session_request k u a, message_request k u a sid message,
                    delete_request k u a sid]"
    using assms
    by (auto simp: client_defs split: sum.splits prod.splits)
  moreover have "message_request k u a sid' message \<noteq> session_request k u a"
    by (simp add: message_request_def session_request_def)
  ultimately show ?thesis
    using assms by (simp add: client_defs)
qed

theorem session_failure_aborts_and_no_retries_witness:
  "WATSON_APIKEY cfg_set = Some ''key'' \<and> ''key'' \<noteq> []
   \<and> WATSON_URL cfg_set = Some ''https://watson.example'' \<and> ''https://watson.example'' \<noteq> []
   \<and> WATSON_ASSISTANT_ID cfg_set = Some ''assistant'' \<and> ''assistant'' \<noteq> []
   \<and> net_down [] (session_request ''key'' ''https://watson.example'' ''assistant'') =
        Inl (RequestException ''connection refused'')
   \<and> call_watson_assistant cfg_set sample_lib net_down ''hi'' =
        (JStr (watson_exception_text sample_lib (RequestException ''connection refused'')),
         [session_request ''key'' ''https://watson.example'' ''assistant''])
   \<and> net_http_500 [] (session_request ''key'' ''https://watson.example'' ''assistant'') =
        Inr \<lparr> status_code = 500, json_result = Inr JNull \<rparr>
   \<and> raise_for_status \<lparr> status_code = 500, json_result = Inr JNull \<rparr> = Inl (HTTPError 500)
   \<and> call_watson_assistant cfg_set sample_lib net_http_500 ''hi'' =
        (JStr (watson_exception_text sample_lib (HTTPError 500)),
         [session_request ''key'' ''https://watson.example'' ''assistant''])
   \<and> (\<exists>sid. prefix (snd (call_watson_assistant cfg_set sample_lib net_two_texts ''hi''))
               [session_request ''key'' ''https://watson.example'' ''assistant'',
                message_request ''key'' ''https://watson.example'' ''assistant'' sid ''hi'',
                delete_request ''key'' ''https://watson.example'' ''assistant'' sid])"
proof -
  have c: "WATSON_APIKEY cfg_set = Some ''key''" "''key'' \<noteq> []"
    "WATSON_URL cfg_set = Some ''https://watson.example''" "''https://watson.example'' \<noteq> []"
    "WATSON_ASSISTANT_ID cfg_set = Some ''assistant''" "''assistant'' \<noteq> []"
    by (simp_all add: cfg_set_def)
  have n1: "net_down [] (session_request ''key'' ''https://watson.example'' ''assistant'') =
        Inl (RequestException ''connection refused'')"
    by (simp add: net_down_def)
  have n2: "net_http_500 [] (session_request ''key'' ''https://watson.example'' ''assistant'') =
        Inr \<lparr> status_code = 500, json_result = Inr JNull \<rparr>"
    "raise_for_status \<lparr> status_code = 500, json_result = Inr JNull \<rparr> = Inl (HTTPError 500)"
    by (simp_all add: net_http_500_def raise_for_status_def)
  note t = session_failure_aborts_and_no_retries
        [OF c, where netA = net_down and netB = net_http_500 and net = net_two_texts
           and message = "''hi''" and lib = sample_lib]
  have t1: "call_watson_assistant cfg_set sample_lib net_down ''hi'' =
        (JStr (watson_exception_text sample_lib (RequestException ''connection refused'')),
         [session_request ''key'' ''https://watson.example'' ''assistant''])"
    using t n1 by blast
  have t2: "call_watson_assistant cfg_set sample_lib net_http_500 ''hi'' =
        (JStr (watson_exception_text sample_lib (HTTPError 500)),
         [session_request ''key'' ''https://watson.example'' ''assistant''])"
    using t n2 by blast
  have t3: "\<exists>sid. prefix (snd (call_watson_assistant cfg_set sample_lib net_two_texts ''hi''))
               [session_request ''key'' ''https://watson.example'' ''assistant'',
                message_request ''key'' ''https://watson.example'' ''assistant'' sid ''hi'',
                delete_request ''key'' ''https://watson.example'' ''assistant'' sid]"
    using t by blast
  show ?thesis
    using c n1 n2 t1 t2 t3 by blast
qed

text \<open>
  C2, at a response body that is not handled as specified. The body is the JSON
  array \<^verbatim>\<open>[0.125, 0.25]\<close>: it is neither an array whose first element is an object with
  a \<^verbatim>\<open>generated_text\<close> field nor such an object, yet the client does not return the
  serialized body. The membership test of line 46 raises on the number, and the text of
  that exception is returned.
\<close>

theorem hf_array_of_numbers_not_serialized:
  "fst (call_hf_inference cfg_set lib (net_reply (JArr [JFloat (1/8), JFloat (1/4)]))
          prompt model max_tokens temperature) =
     JStr (''Exception calling Hugging Face Inference API: '' @
           str_exc lib (TypeError_not_container (JFloat (1/8))))"
  by (simp add: client_defs sample_defs net_reply_def hf_extract_def py_contains_def
      hf_exception_text_def)

text \<open>
  C3, at a response with two text entries \<^verbatim>\<open>a\<close> and \<^verbatim>\<open>b\<close>. The client joins them with
  the two characters backslash and \<^verbatim>\<open>n\<close> (line 83 writes the separator as \<^verbatim>\<open>"\\n"\<close>), so
  it returns a four-character string, not \<^verbatim>\<open>a\<close>, a line feed and \<^verbatim>\<open>b\<close>.
\<close>

theorem watson_joins_with_backslash_n:
  "fst (call_watson_assistant cfg_set lib net_two_texts ''hi'') =
     JStr [CHR ''a'', CHR 0x5C, CHR ''n'', CHR ''b'']
   \<and> [CHR ''a'', CHR 0x5C, CHR ''n'', CHR ''b''] \<noteq> [CHR ''a'', CHR 0x0A, CHR ''b'']"
  by (simp add: client_defs sample_defs net_two_texts_def watson_output_def py_iter_def
      py_join_def bsn_def request_defs)

section \<open>Floats and the budget summary\<close>

lemma ilog2_bounds:
  assumes "0 < x"
  shows "2 powi (ilog2 x) \<le> x \<and> x < 2 powi (ilog2 x + 1)"
proof (cases "1 \<le> x")
  case True
  define n where "n = nat \<lfloor>x\<rfloor>"
  define L where "L = floorlog 2 n"
  have n: "0 < n" using True by (simp add: n_def)
  have b: "2 ^ (L - 1) \<le> n \<and> n < 2 ^ L"
    unfolding L_def using floorlog_bounds [of n 2] n by simp
  have Lpos: "0 < L" using b n by (cases L) auto
  have il: "ilog2 x = int L - 1" using True by (simp add: ilog2_def L_def n_def)
  have nx: "rat_of_nat n \<le> x" using True by (simp add: n_def)
  have xn: "x < rat_of_nat n + 1" using True by (simp add: n_def; linarith)
  have "(2::rat) ^ (L - 1) \<le> rat_of_nat n"
    using b by (metis of_nat_le_iff of_nat_numeral of_nat_power)
  then have lo: "(2::rat) ^ (L - 1) \<le> x" using nx by linarith
  have "n + 1 \<le> 2 ^ L" using b by simp
  then have "rat_of_nat (n + 1) \<le> rat_of_nat (2 ^ L)" using of_nat_le_iff by blast
  then have hi: "x < (2::rat) ^ L" using xn by simp
  have p1: "(2::rat) powi (int L - 1) = 2 ^ (L - 1)"
    using Lpos by (simp add: power_int_def nat_diff_distrib')
  have p2: "(2::rat) powi (int L - 1 + 1) = 2 ^ L"
    by (simp add: power_int_def)
  show ?thesis using lo hi il p1 p2 by simp
next
  case False
  define y where "y = 1 / x"
  define m where "m = nat (\<lceil>y\<rceil> - 1)"
  define L where "L = floorlog 2 m"
  have y1: "1 < y" using False assms by (simp add: y_def)
  have cy: "2 \<le> \<lceil>y\<rceil>" using y1 by linarith
  have m: "0 < m" using cy by (simp add: m_def)
  have b: "2 ^ (L - 1) \<le> m \<and> m < 2 ^ L"
    unfolding L_def using floorlog_bounds [of m 2] m by simp
  have Lpos: "0 < L" using b m by (cases L) auto
  have il: "ilog2 x = - int L" using False by (simp add: ilog2_def L_def m_def y_def)
  have my: "rat_of_nat m < y" using cy by (simp add: m_def; linarith)
  have ym: "y \<le> rat_of_nat m + 1" using cy by (simp add: m_def; linarith)
  have "(2::rat) ^ (L - 1) \<le> rat_of_nat m"
    using b by (metis of_nat_le_iff of_nat_numeral of_nat_power)
  then have lo: "(2::rat) ^ (L - 1) < y" using my by linarith
  have "m + 1 \<le> 2 ^ L" using b by simp
  then have "rat_of_nat (m + 1) \<le> rat_of_nat (2 ^ L)" using of_nat_le_iff by blast
  then have hi: "y \<le> (2::rat) ^ L" using ym by simp
  have xy: "x = 1 / y" using assms by (simp add: y_def)
  have ypos: "0 < y" using y1 by simp
  have "1 / (2::rat) ^ L \<le> 1 / y" using hi ypos by (simp add: frac_le)
  moreover have "(2::rat) powi (- int L) = 1 / 2 ^ L"
    by (simp add: power_int_minus field_simps)
  ultimately have lo': "2 powi (- int L) \<le> x"
    using xy by simp
  have "1 / y < 1 / (2::rat) ^ (L - 1)" using lo by (simp add: frac_less2)
  moreover have "(2::rat) powi (- int L + 1) = 1 / 2 ^ (L - 1)"
    using Lpos by (cases L) (simp_all add: power_int_def field_simps nat_diff_distrib')
  ultimately have hi': "x < 2 powi (- int L + 1)" using xy by simp
  show ?thesis using lo' hi' il by simp
qed

lemma ilog2_unique:
  assumes "2 powi k \<le> x" and "x < 2 powi (k + 1)"
  shows "ilog2 x = k"
proof -
  have "0 < (2::rat) powi k" by simp
  then have x: "0 < x" using assms by linarith
  note b = ilog2_bounds [OF x]
  have "(2::rat) powi (ilog2 x) < 2 powi (k + 1)" using b assms by linarith
  then have 1: "ilog2 x < k + 1"
    using power_int_increasing [of "k + 1" "ilog2 x" "2::rat"] by force
  have "(2::rat) powi k < 2 powi (ilog2 x + 1)" using b assms by linarith
  then have 2: "k < ilog2 x + 1"
    using power_int_increasing [of "ilog2 x + 1" k "2::rat"] by force
  show ?thesis using 1 2 by simp
qed

lemma floor_numeral_div:
  "\<lfloor>(numeral a :: rat) / numeral b\<rfloor> = numeral a div numeral b"
  "\<lfloor>- ((numeral a :: rat) / numeral b)\<rfloor> = - numeral a div numeral b"
  using floor_divide_of_int_eq [of "numeral a" "numeral b", where ?'a = rat]
    floor_divide_of_int_eq [of "- numeral a" "numeral b", where ?'a = rat]
  by simp_all

lemmas float_eval = binary64_def Let_def round_half_even_def power_int_minus_divide
  floor_numeral_div

lemma half_literal: "binary64 (1 / 2) = 1 / 2"
proof -
  have "ilog2 \<bar>1 / 2\<bar> = -1" by (rule ilog2_unique) (simp_all add: power_int_minus_divide)
  then show ?thesis by (simp add: float_eval)
qed

lemma fifth_literal: "binary64 (1 / 5) = 3602879701896397 / 18014398509481984"
proof -
  have "ilog2 \<bar>1 / 5\<bar> = -3" by (rule ilog2_unique) (simp_all add: power_int_minus_divide)
  then show ?thesis by (simp add: float_eval)
qed

lemma essentials_30000: "fmul 30000 (1 / 2) = 15000"
proof -
  have "ilog2 \<bar>30000 * (1 / 2)\<bar> = 13"
    by (rule ilog2_unique) (simp_all add: power_int_minus_divide)
  then show ?thesis by (simp add: fmul_def float_eval)
qed

lemma savings_30000: "fmul 30000 (3602879701896397 / 18014398509481984) = 6000"
proof -
  have "ilog2 \<bar>30000 * (3602879701896397 / 18014398509481984)\<bar> = 12"
    by (rule ilog2_unique) (simp_all add: power_int_minus_divide)
  then show ?thesis by (simp add: fmul_def float_eval)
qed

lemma income_less_essentials_30000: "fsub 30000 15000 = 15000"
proof -
  have "ilog2 \<bar>30000 - 15000\<bar> = 13"
    by (rule ilog2_unique) (simp_all add: power_int_minus_divide)
  then show ?thesis by (simp add: fsub_def float_eval)
qed

lemma discretionary_30000: "fsub 15000 6000 = 9000"
proof -
  have "ilog2 \<bar>15000 - 6000\<bar> = 13"
    by (rule ilog2_unique) (simp_all add: power_int_minus_divide)
  then show ?thesis by (simp add: fsub_def float_eval)
qed

lemma percent_50: "fmul (1 / 2) 100 = 50"
proof -
  have "ilog2 \<bar>1 / 2 * 100\<bar> = 5"
    by (rule ilog2_unique) (simp_all add: power_int_minus_divide)
  then show ?thesis by (simp add: fmul_def float_eval)
qed

lemma percent_20: "fmul (3602879701896397 / 18014398509481984) 100 = 20"
proof -
  have "ilog2 \<bar>3602879701896397 / 18014398509481984 * 100\<bar> = 4"
    by (rule ilog2_unique) (simp_all add: power_int_minus_divide)
  then show ?thesis by (simp add: fmul_def float_eval)
qed

lemmas format_eval = format_fixed_def Let_def round_half_even_def with_commas_def pad_zeros_def
  digit_char_def

lemma formatted_30000:
  "format_fixed True 2 30000 = ''30,000.00''"
  "format_fixed True 2 15000 = ''15,000.00''"
  "format_fixed True 2 6000 = ''6,000.00''"
  "format_fixed True 2 9000 = ''9,000.00''"
  "format_fixed False 0 50 = ''50''"
  "format_fixed False 0 20 = ''20''"
  by (simp_all add: format_eval)

lemma amounts_30000:
  "budget_amounts 30000 (1 / 2) (3602879701896397 / 18014398509481984) = (15000, 6000, 9000)"
  by (simp add: budget_amounts_def Let_def essentials_30000 savings_30000
      income_less_essentials_30000 discretionary_30000)

text \<open>
  C7. With income 30000 and the fractions 0.5 and 0.2, the three amounts are 15000, 6000
  and 9000, and the summary reports them with two decimals (and thousands separators) as
  15,000.00, 6,000.00 and 9,000.00.
\<close>

theorem budget_summary_30000:
  "budget_amounts 30000 (binary64 (5 / 10)) (binary64 (2 / 10)) = (15000, 6000, 9000)
   \<and> generate_budget_summary 30000 (binary64 (5 / 10)) (binary64 (2 / 10)) =
       ''Monthly Budget Summary:'' @ bsn @
       ''Total income: '' @ rupee @ ''30,000.00'' @ bsn @
       ''Essentials (50%): '' @ rupee @ ''15,000.00'' @ bsn @
       ''Savings (20%): '' @ rupee @ ''6,000.00'' @ bsn @
       ''Discretionary: '' @ rupee @ ''9,000.00'' @ bsn"
  by (simp add: generate_budget_summary_def half_literal fifth_literal amounts_30000
      percent_50 percent_20 formatted_30000)

section \<open>Properties of the request flow\<close>

text \<open>
  C8. With income 0 the prompt handed to the client is the built prompt alone, with no
  reference budget section; with a positive income it is the built prompt followed by the
  reference budget heading and the budget summary for that income. The handler passes this
  prompt to whichever client the backend selects.
\<close>

theorem budget_section_only_for_positive_income:
  "(income = 0 \<longrightarrow> request_prompt user_q persona income = build_prompt user_q persona)
   \<and> (0 < income \<longrightarrow>
        request_prompt user_q persona income =
          build_prompt user_q persona @ bsn @ bsn @ ''Reference budget (income info):'' @ bsn @
          generate_budget_summary income default_essentials_pct default_savings_pct)
   \<and> snd (get_answer cfg lib net backend persona user_q income) =
        (if prefix ''Granite'' backend then
           snd (call_hf_inference cfg lib net (request_prompt user_q persona income)
                  (Some (GRANITE_MODEL cfg)) 400 (binary64 (2 / 10)))
         else snd (call_watson_assistant cfg lib net (request_prompt user_q persona income)))"
  by (simp add: request_prompt_def get_answer_def Let_def split: prod.splits)

theorem budget_section_only_for_positive_income_witness:
  "(0::rat) = 0 \<and> request_prompt ''How to save?'' ''student'' 0 =
      build_prompt ''How to save?'' ''student''
   \<and> (0::rat) < 30000
   \<and> request_prompt ''How to save?'' ''student'' 30000 =
        build_prompt ''How to save?'' ''student'' @ bsn @ bsn @
        ''Reference budget (income info):'' @ bsn @
        generate_budget_summary 30000 default_essentials_pct default_savings_pct"
proof -
  have z: "(0::rat) = 0" and p: "(0::rat) < 30000" by simp_all
  have a: "request_prompt ''How to save?'' ''student'' 0 =
      build_prompt ''How to save?'' ''student''"
    using z budget_section_only_for_positive_income
      [where income = 0 and user_q = "''How to save?''" and persona = "''student''"]
    by blast
  have b: "request_prompt ''How to save?'' ''student'' 30000 =
        build_prompt ''How to save?'' ''student'' @ bsn @ bsn @
        ''Reference budget (income info):'' @ bsn @
        generate_budget_summary 30000 default_essentials_pct default_savings_pct"
    using p budget_section_only_for_positive_income
      [where income = 30000 and user_q = "''How to save?''" and persona = "''student''"]
    by blast
  show ?thesis using z p a b by blast
qed

section \<open>Rounding error of the budget split\<close>

lemma round_half_even_error: "\<bar>of_int (round_half_even x) - x\<bar> \<le> 1 / 2"
proof -
  have "of_int \<lfloor>x\<rfloor> \<le> x" and "x < of_int \<lfloor>x\<rfloor> + 1" by linarith+
  then show ?thesis
    by (auto simp: round_half_even_def Let_def)
qed

lemma binary64_error: "\<bar>binary64 x - x\<bar> \<le> \<bar>x\<bar> / 2 ^ 53"
proof (cases "x = 0")
  case True
  then show ?thesis by (simp add: binary64_def)
next
  case False
  define p :: rat where "p = 2 powi (ilog2 \<bar>x\<bar> - 52)"
  define n where "n = round_half_even (x / p)"
  have ppos: "0 < p" by (simp add: p_def)
  have b: "binary64 x = of_int n * p"
    using False by (simp add: binary64_def Let_def p_def n_def)
  have "2 powi (ilog2 \<bar>x\<bar>) \<le> \<bar>x\<bar>" using ilog2_bounds [of "\<bar>x\<bar>"] False by simp
  moreover have "(2::rat) powi (ilog2 \<bar>x\<bar>) = p * 2 ^ 52"
    by (simp add: p_def power_int_diff)
  ultimately have px: "p \<le> \<bar>x\<bar> / 2 ^ 52" by (simp add: field_simps)
  have "\<bar>of_int n - x / p\<bar> \<le> 1 / 2" unfolding n_def by (rule round_half_even_error)
  then have "\<bar>of_int n - x / p\<bar> * p \<le> 1 / 2 * p"
    using ppos by (simp add: mult_right_mono)
  moreover have "\<bar>of_int n - x / p\<bar> * p = \<bar>of_int n * p - x\<bar>"
  proof -
    have "\<bar>of_int n - x / p\<bar> * p = \<bar>(of_int n - x / p) * p\<bar>"
      using ppos by (simp add: abs_mult)
    also have "(of_int n - x / p) * p = of_int n * p - x"
      using ppos by (simp add: field_simps)
    finally show ?thesis .
  qed
  ultimately have "\<bar>binary64 x - x\<bar> \<le> p / 2" using b by simp
  then show ?thesis using px by simp
qed


lemma rounding_step:
  assumes "\<bar>z\<bar> \<le> k * x" and "0 \<le> x"
  shows "\<bar>binary64 z - z\<bar> \<le> k * x / 9007199254740992"
proof -
  have "\<bar>binary64 z - z\<bar> \<le> \<bar>z\<bar> / 2 ^ 53" by (rule binary64_error)
  also have "\<dots> \<le> k * x / 2 ^ 53" using assms by (simp add: divide_right_mono)
  finally show ?thesis by simp
qed

lemma sum_within_tolerance:
  assumes x: "0 < x"
    and e: "e = fmul x (1 / 2)"
    and s: "s = fmul x (3602879701896397 / 18014398509481984)"
    and d: "d = fsub (fsub x e) s"
  shows "\<bar>fadd (fadd e s) d - x\<bar> \<le> x / 2 ^ 49"
proof -
  define a where "a = fsub x e"
  define t where "t = fadd e s"
  define r where "r = fadd t d"
  have x0: "0 \<le> x" using x by simp
  have "\<bar>x * (1 / 2)\<bar> \<le> (1 / 2) * x" using x by simp
  from rounding_step [OF this x0] have ee: "\<bar>e - x * (1 / 2)\<bar> \<le> (1 / 2) * x / 9007199254740992"
    by (simp add: e fmul_def)
  have "\<bar>x * (3602879701896397 / 18014398509481984)\<bar> \<le> (1 / 4) * x" using x by simp
  from rounding_step [OF this x0]
  have se: "\<bar>s - x * (3602879701896397 / 18014398509481984)\<bar> \<le> (1 / 4) * x / 9007199254740992"
    by (simp add: s fmul_def)
  have eb: "0 \<le> e \<and> e \<le> x" using ee x by linarith
  have sb: "0 \<le> s \<and> s \<le> x" using se x by linarith
  have "\<bar>x - e\<bar> \<le> 1 * x" using eb by linarith
  from rounding_step [OF this x0] have e2: "\<bar>a - (x - e)\<bar> \<le> 1 * x / 9007199254740992"
    by (simp add: a_def fsub_def)
  have ab: "\<bar>a\<bar> \<le> 2 * x" using e2 eb x by linarith
  have "\<bar>a - s\<bar> \<le> 3 * x" using ab sb by linarith
  from rounding_step [OF this x0] have e3: "\<bar>d - (a - s)\<bar> \<le> 3 * x / 9007199254740992"
    by (simp add: d a_def fsub_def)
  have db: "\<bar>d\<bar> \<le> 6 * x" using e3 ab sb x by linarith
  have "\<bar>e + s\<bar> \<le> 2 * x" using eb sb by linarith
  from rounding_step [OF this x0] have e4: "\<bar>t - (e + s)\<bar> \<le> 2 * x / 9007199254740992"
    by (simp add: t_def fadd_def)
  have tb: "\<bar>t\<bar> \<le> 4 * x" using e4 eb sb x by linarith
  have "\<bar>t + d\<bar> \<le> 10 * x" using tb db by linarith
  from rounding_step [OF this x0] have e5: "\<bar>r - (t + d)\<bar> \<le> 10 * x / 9007199254740992"
    by (simp add: r_def fadd_def)
  have "\<bar>r - x\<bar> \<le> 16 * x / 9007199254740992"
    using e2 e3 e4 e5 by linarith
  then show ?thesis by (simp add: r_def t_def)
qed

lemma three_quarters_literal: "binary64 (3 / 4) = 3 / 4"
proof -
  have "ilog2 \<bar>3 / 4\<bar> = - 1"
    by (rule ilog2_unique) (simp_all add: power_int_minus_divide)
  then show ?thesis by (simp add: float_eval)
qed

lemma essentials_1000: "fmul 1000 (3 / 4) = 750"
proof -
  have "ilog2 \<bar>1000 * (3 / 4)\<bar> = 9"
    by (rule ilog2_unique) (simp_all add: power_int_minus_divide)
  then show ?thesis by (simp add: fmul_def float_eval)
qed

lemma savings_1000: "fmul 1000 (1 / 2) = 500"
proof -
  have "ilog2 \<bar>1000 * (1 / 2)\<bar> = 8"
    by (rule ilog2_unique) (simp_all add: power_int_minus_divide)
  then show ?thesis by (simp add: fmul_def float_eval)
qed

lemma income_less_essentials_1000: "fsub 1000 750 = 250"
proof -
  have "ilog2 \<bar>1000 - 750\<bar> = 7"
    by (rule ilog2_unique) (simp_all add: power_int_minus_divide)
  then show ?thesis by (simp add: fsub_def float_eval)
qed

lemma discretionary_1000: "fsub 250 500 = - 250"
proof -
  have "ilog2 \<bar>250 - 500\<bar> = 7"
    by (rule ilog2_unique) (simp_all add: power_int_minus_divide)
  then show ?thesis by (simp add: fsub_def float_eval)
qed

lemma income_1_51: "binary64 (151 / 100) = 6800435437329449 / 4503599627370496"
proof -
  have "ilog2 \<bar>151 / 100\<bar> = 0"
    by (rule ilog2_unique) (simp_all add: power_int_minus_divide)
  then show ?thesis by (simp add: float_eval)
qed

lemma essentials_1_51: "fmul (6800435437329449 / 4503599627370496) (1 / 2) = 6800435437329449 / 9007199254740992"
proof -
  have "ilog2 \<bar>(6800435437329449 / 4503599627370496) * (1 / 2)\<bar> = - 1"
    by (rule ilog2_unique) (simp_all add: power_int_minus_divide)
  then show ?thesis by (simp add: fmul_def float_eval)
qed

lemma savings_1_51: "fmul (6800435437329449 / 4503599627370496) (3602879701896397 / 18014398509481984) = 680043543732945 / 2251799813685248"
proof -
  have "ilog2 \<bar>(6800435437329449 / 4503599627370496) * (3602879701896397 / 18014398509481984)\<bar> = - 2"
    by (rule ilog2_unique) (simp_all add: power_int_minus_divide)
  then show ?thesis by (simp add: fmul_def float_eval)
qed

lemma income_less_essentials_1_51: "fsub (6800435437329449 / 4503599627370496) (6800435437329449 / 9007199254740992) = 6800435437329449 / 9007199254740992"
proof -
  have "ilog2 \<bar>(6800435437329449 / 4503599627370496) - (6800435437329449 / 9007199254740992)\<bar> = - 1"
    by (rule ilog2_unique) (simp_all add: power_int_minus_divide)
  then show ?thesis by (simp add: fsub_def float_eval)
qed

lemma discretionary_1_51: "fsub (6800435437329449 / 9007199254740992) (680043543732945 / 2251799813685248) = 4080261262397669 / 9007199254740992"
proof -
  have "ilog2 \<bar>(6800435437329449 / 9007199254740992) - (680043543732945 / 2251799813685248)\<bar> = - 2"
    by (rule ilog2_unique) (simp_all add: power_int_minus_divide)
  then show ?thesis by (simp add: fsub_def float_eval)
qed

lemma partial_sum_1_51: "fadd (6800435437329449 / 9007199254740992) (680043543732945 / 2251799813685248) = 2380152403065307 / 2251799813685248"
proof -
  have "ilog2 \<bar>(6800435437329449 / 9007199254740992) + (680043543732945 / 2251799813685248)\<bar> = 0"
    by (rule ilog2_unique) (simp_all add: power_int_minus_divide)
  then show ?thesis by (simp add: fadd_def float_eval)
qed

lemma sum_1_51: "fadd (2380152403065307 / 2251799813685248) (4080261262397669 / 9007199254740992) = 850054429666181 / 562949953421312"
proof -
  have "ilog2 \<bar>(2380152403065307 / 2251799813685248) + (4080261262397669 / 9007199254740992)\<bar> = 0"
    by (rule ilog2_unique) (simp_all add: power_int_minus_divide)
  then show ?thesis by (simp add: fadd_def float_eval)
qed

lemma amounts_1000:
  "budget_amounts 1000 (3 / 4) (1 / 2) = (750, 500, - 250)"
  by (simp add: budget_amounts_def Let_def essentials_1000 savings_1000
      income_less_essentials_1000 discretionary_1000)

text \<open>
  C6. For every income above 0 and the default fractions 0.5 and 0.2, the three amounts
  add up to the income within floating-point tolerance: the float sum
  \<^verbatim>\<open>essentials + savings + discretionary\<close> differs from the income by at most the income
  times \<open>2 powi (-49)\<close>. The discretionary amount is the income less the essentials less
  the savings, and it is negative for fractions that add up to more than 1, as for income
  1000 with fractions 0.75 and 0.5.
\<close>

theorem budget_amounts_sum_to_income:
  assumes "0 < income"
    and "budget_amounts income default_essentials_pct default_savings_pct =
           (essentials, savings, discretionary)"
  shows "\<bar>fadd (fadd essentials savings) discretionary - income\<bar> \<le> income / 2 ^ 49
         \<and> discretionary = fsub (fsub income essentials) savings
         \<and> snd (snd (budget_amounts 1000 (binary64 (75 / 100)) (binary64 (5 / 10)))) < 0"
proof -
  have e: "essentials = fmul income (1 / 2)"
    and s: "savings = fmul income (3602879701896397 / 18014398509481984)"
    and d: "discretionary = fsub (fsub income essentials) savings"
    using assms(2)
    by (auto simp: budget_amounts_def Let_def default_essentials_pct_def
        default_savings_pct_def half_literal fifth_literal)
  have "snd (snd (budget_amounts 1000 (binary64 (75 / 100)) (binary64 (5 / 10)))) < 0"
    by (simp add: three_quarters_literal half_literal amounts_1000)
  then show ?thesis
    using sum_within_tolerance [OF assms(1) e s d] d by simp
qed

theorem budget_amounts_sum_to_income_witness:
  "(0::rat) < 30000
   \<and> budget_amounts 30000 default_essentials_pct default_savings_pct = (15000, 6000, 9000)
   \<and> \<bar>fadd (fadd 15000 6000) 9000 - 30000\<bar> \<le> 30000 / 2 ^ 49
   \<and> (9000::rat) = fsub (fsub 30000 15000) 6000"
proof -
  have p: "(0::rat) < 30000" by simp
  have a: "budget_amounts 30000 default_essentials_pct default_savings_pct =
             (15000, 6000, 9000)"
    by (simp add: default_essentials_pct_def default_savings_pct_def half_literal
        fifth_literal amounts_30000)
  show ?thesis
    using p a budget_amounts_sum_to_income [OF p a] by blast
qed

text \<open>
  The tolerance is needed: for the income 1.51 the float sum of the three amounts is the
  float just below the income.
\<close>

lemma sum_not_bit_exact_at_1_51:
  "budget_amounts (binary64 (151 / 100)) default_essentials_pct default_savings_pct =
     (6800435437329449 / 9007199254740992, 680043543732945 / 2251799813685248,
      4080261262397669 / 9007199254740992)
   \<and> fadd (fadd (6800435437329449 / 9007199254740992) (680043543732945 / 2251799813685248))
        (4080261262397669 / 9007199254740992) = 850054429666181 / 562949953421312
   \<and> binary64 (151 / 100) - 850054429666181 / 562949953421312 = 1 / 2 ^ 52"
  by (simp add: budget_amounts_def Let_def default_essentials_pct_def default_savings_pct_def
      half_literal fifth_literal income_1_51 essentials_1_51 savings_1_51
      income_less_essentials_1_51 discretionary_1_51 partial_sum_1_51 sum_1_51)

section \<open>What the clients return on well-formed responses\<close>

text \<open>
  The parts of C2 and C3 that hold. On a successful response, \<open>call_hf_inference\<close> returns
  what \<open>hf_extract\<close> computes from the decoded body: the \<^verbatim>\<open>generated_text\<close> field for the
  two accepted shapes, the serialized body for an empty array, for an object without the
  field, for an array whose first element is such an object, and for a scalar.
\<close>

lemma key_present: "map_of kvs k = Some v \<Longrightarrow> k \<in> fst ` set kvs"
  by (metis domI dom_map_of_conv_image_fst)

lemma key_absent: "map_of kvs k = None \<Longrightarrow> k \<notin> fst ` set kvs"
  by (metis domIff dom_map_of_conv_image_fst)

lemma hf_success_returns_extract:
  assumes "HUGGINGFACE_API_TOKEN cfg = Some tok" and "tok \<noteq> []"
    and "hf_extract lib data = Inr v"
  shows "fst (call_hf_inference cfg lib (net_reply data) prompt model max_tokens temperature) = v"
  using assms by (simp add: client_defs net_reply_def ok_response_def raise_for_status_def)

lemma hf_extract_array_shape:
  assumes "map_of kvs ''generated_text'' = Some v"
  shows "hf_extract lib (JArr (JObj kvs # ds)) = Inr v"
  using assms key_present [OF assms]
  by (simp add: hf_extract_def py_contains_def py_getitem_def)

lemma hf_extract_object_shape:
  assumes "map_of kvs ''generated_text'' = Some v"
  shows "hf_extract lib (JObj kvs) = Inr v"
  using assms key_present [OF assms]
  by (simp add: hf_extract_def py_getitem_def)

lemma hf_extract_fallback_objects:
  assumes "map_of kvs ''generated_text'' = None"
  shows "hf_extract lib (JObj kvs) = Inr (JStr (dumps lib (JObj kvs)))"
    and "hf_extract lib (JArr (JObj kvs # ds)) = Inr (JStr (dumps lib (JArr (JObj kvs # ds))))"
  using key_absent [OF assms]
  by (simp_all add: hf_extract_def py_contains_def)

lemma hf_extract_fallback_scalars:
  "hf_extract lib (JArr []) = Inr (JStr (dumps lib (JArr [])))"
  "hf_extract lib JNull = Inr (JStr (dumps lib JNull))"
  "hf_extract lib (JBool b) = Inr (JStr (dumps lib (JBool b)))"
  "hf_extract lib (JInt i) = Inr (JStr (dumps lib (JInt i)))"
  "hf_extract lib (JFloat q) = Inr (JStr (dumps lib (JFloat q)))"
  "hf_extract lib (JStr s) = Inr (JStr (dumps lib (JStr s)))"
  by (simp_all add: hf_extract_def)

text \<open>
  On a well-formed message reply, \<open>call_watson_assistant\<close> keeps exactly the texts of the
  entries tagged \<^verbatim>\<open>text\<close>, in their order, and falls back to the serialized reply when
  there is none; the separator it puts between them is \<open>bsn\<close>.
\<close>

lemma py_join_from_strings: "py_join_from sep i (map JStr ss) = Inr (join_with sep ss)"
proof (induction ss arbitrary: i)
  case Nil
  then show ?case by simp
next
  case (Cons s ss)
  then show ?case by (cases ss) simp_all
qed

lemma collect_texts_entries:
  "collect_texts (map (\<lambda>(t, s). generic_entry t s) es) acc =
     Inr (acc @ map JStr (text_segments es))"
proof (induction es arbitrary: acc)
  case Nil
  then show ?case by (simp add: text_segments_def)
next
  case (Cons e es)
  obtain t s where e: "e = (t, s)" by (cases e)
  show ?case
    using Cons.IH by (simp add: e generic_entry_def py_get_def text_segments_def)
qed

lemma watson_output_message_reply:
  "watson_output lib (message_reply es) =
     Inr (JStr (if text_segments es \<noteq> [] then join_with bsn (text_segments es)
                else dumps lib (message_reply es)))"
  by (simp add: watson_output_def message_reply_def py_get_def py_iter_def
      collect_texts_entries py_join_def py_join_from_strings)

end
